theory Spec2Isabelle
  imports Complex_Main
begin

section \<open>Data model of script.js\<close>

text \<open>
  The script keeps its whole state in global variables. Each object literal becomes a
  record, the globals are collected in the record \<open>game\<close>, and every function of the
  script that writes a global takes the game and returns the new one.

  JavaScript numbers are modelled as real numbers: arithmetic is exact, there is no
  rounding, no infinity and no NaN. \<open>Math.random()\<close> is a parameter: \<open>rnd 0\<close>,
  \<open>rnd 1\<close> are the results of the successive calls made while the function runs.
  \<open>WIDTH\<close> and \<open>HEIGHT\<close> are read from the canvas element, which is not part of the
  script; they are fields of the game that no function writes.
\<close>

record paddle =
  pad_x :: real
  pad_y :: real
  pad_width :: real
  pad_height :: real
  pad_speed :: real

record player_paddle = paddle +
  pad_dy :: real

record ball_obj =
  ball_x :: real
  ball_y :: real
  ball_r :: real
  ball_speed :: real
  ball_vx :: real
  ball_vy :: real

record score_obj =
  score_player :: int
  score_cpu :: int

record key_state =
  ArrowUp :: bool
  ArrowDown :: bool

text \<open>The three sound helpers; a played cue is appended to the trace \<open>cues\<close>.\<close>

datatype cue = PaddleSound | WallSound | ScoreSound

datatype direction = Left | Right

datatype key_code = KeyArrowUp | KeyArrowDown | KeyOther

record game =
  WIDTH :: real
  HEIGHT :: real
  player :: player_paddle
  cpu :: paddle
  ball :: ball_obj
  score :: score_obj
  paused :: bool
  mouseActive :: bool
  keyState :: key_state
  audioUnlocked :: bool
  cues :: "cue list"

definition PADDLE_WIDTH :: real where
  "PADDLE_WIDTH = 10"

definition PADDLE_HEIGHT :: real where
  "PADDLE_HEIGHT = 100"

definition PADDING :: real where
  "PADDING = 12"

definition MAX_BOUNCE_ANGLE :: real where
  "MAX_BOUNCE_ANGLE = (5 * pi) / 12"

text \<open>The globals as the declarations at the top of the script leave them.\<close>

definition initial :: "real \<Rightarrow> real \<Rightarrow> game" where
  "initial w h =
     \<lparr> WIDTH = w, HEIGHT = h,
       player = \<lparr> pad_x = PADDING, pad_y = (h - PADDLE_HEIGHT) / 2,
                  pad_width = PADDLE_WIDTH, pad_height = PADDLE_HEIGHT,
                  pad_speed = 6, pad_dy = 0 \<rparr>,
       cpu = \<lparr> pad_x = w - PADDING - PADDLE_WIDTH, pad_y = (h - PADDLE_HEIGHT) / 2,
               pad_width = PADDLE_WIDTH, pad_height = PADDLE_HEIGHT, pad_speed = 5 \<rparr>,
       ball = \<lparr> ball_x = w / 2, ball_y = h / 2, ball_r = 8, ball_speed = 6,
                ball_vx = 0, ball_vy = 0 \<rparr>,
       score = \<lparr> score_player = 0, score_cpu = 0 \<rparr>,
       paused = False, mouseActive = False,
       keyState = \<lparr> ArrowUp = False, ArrowDown = False \<rparr>,
       audioUnlocked = False, cues = [] \<rparr>"

section \<open>Helpers\<close>

definition clamp :: "real \<Rightarrow> real \<Rightarrow> real \<Rightarrow> real" where
  "clamp v a b = max a (min b v)"

text \<open>\<open>Math.hypot\<close> with two arguments.\<close>

definition hypot :: "real \<Rightarrow> real \<Rightarrow> real" where
  "hypot a b = sqrt (a\<^sup>2 + b\<^sup>2)"

text \<open>\<open>if (audioUnlocked) playXSound()\<close>: the cue is played only once audio is unlocked.\<close>

definition play :: "cue \<Rightarrow> game \<Rightarrow> game" where
  "play c s = (if audioUnlocked s then s\<lparr>cues := cues s @ [c]\<rparr> else s)"

definition unlockAudio :: "game \<Rightarrow> game" where
  "unlockAudio s = (if audioUnlocked s then s else s\<lparr>audioUnlocked := True\<rparr>)"

section \<open>Serving\<close>

definition resetBall :: "direction option \<Rightarrow> (nat \<Rightarrow> real) \<Rightarrow> game \<Rightarrow> game" where
  "resetBall direction rnd s =
     (let b = (ball s)\<lparr>ball_x := WIDTH s / 2, ball_y := HEIGHT s / 2, ball_speed := 6\<rparr>;
          angle = rnd 0 * (pi / 3) - pi / 6;
          dir = (case direction of
                   Some Left \<Rightarrow> - 1
                 | Some Right \<Rightarrow> 1
                 | None \<Rightarrow> (if rnd 1 < 0.5 then - 1 else 1))
      in s\<lparr>ball := b\<lparr>ball_vx := dir * ball_speed b * cos angle,
                      ball_vy := ball_speed b * sin angle\<rparr>\<rparr>)"

text \<open>The last lines of the script: \<open>resetBall()\<close> on the freshly declared globals.\<close>

definition boot :: "real \<Rightarrow> real \<Rightarrow> (nat \<Rightarrow> real) \<Rightarrow> game" where
  "boot w h rnd = resetBall None rnd (initial w h)"

section \<open>The simulation step\<close>

text \<open>
  \<open>update(dt)\<close> is a straight sequence of blocks; each block is one function here, in
  the order of the source, and \<open>update\<close> is their composition.
\<close>

text \<open>Lines 184-191: keyboard velocity, integration, clamping of the player paddle.\<close>

definition movePlayer :: "real \<Rightarrow> game \<Rightarrow> game" where
  "movePlayer dt s =
     (let p = player s;
          dy = (if ArrowUp (keyState s) then - pad_speed p
                else if ArrowDown (keyState s) then pad_speed p
                else 0);
          y = pad_y p + dy * dt
      in s\<lparr>player := p\<lparr>pad_dy := dy,
                          pad_y := clamp y 0 (HEIGHT s - pad_height p)\<rparr>\<rparr>)"

text \<open>Lines 194-205: the CPU paddle follows the ball or recentres.\<close>

definition moveCpu :: "real \<Rightarrow> game \<Rightarrow> game" where
  "moveCpu dt s =
     (let c = cpu s;
          targetY = (if ball_vx (ball s) > 0 then ball_y (ball s) - pad_height c / 2
                     else HEIGHT s / 2 - pad_height c / 2);
          delta = targetY - pad_y c;
          maxStep = pad_speed c * dt * 10;
          y = pad_y c + clamp delta (- maxStep) maxStep
      in s\<lparr>cpu := c\<lparr>pad_y := clamp y 0 (HEIGHT s - pad_height c)\<rparr>\<rparr>)"

text \<open>Lines 208-209.\<close>

definition moveBall :: "real \<Rightarrow> game \<Rightarrow> game" where
  "moveBall dt s =
     (let b = ball s
      in s\<lparr>ball := b\<lparr>ball_x := ball_x b + ball_vx b * dt * 10,
                      ball_y := ball_y b + ball_vy b * dt * 10\<rparr>\<rparr>)"

text \<open>Lines 212-220: top and bottom wall.\<close>

definition collideWalls :: "game \<Rightarrow> game" where
  "collideWalls s =
     (let b = ball s
      in if ball_y b - ball_r b \<le> 0 then
           play WallSound (s\<lparr>ball := b\<lparr>ball_y := ball_r b, ball_vy := - ball_vy b\<rparr>\<rparr>)
         else if ball_y b + ball_r b \<ge> HEIGHT s then
           play WallSound
             (s\<lparr>ball := b\<lparr>ball_y := HEIGHT s - ball_r b, ball_vy := - ball_vy b\<rparr>\<rparr>)
         else s)"

text \<open>The expression \<open>relativeY\<close> of both paddle blocks (lines 229 and 244).\<close>

definition relativeY :: "ball_obj \<Rightarrow> 'a paddle_scheme \<Rightarrow> real" where
  "relativeY b p = (ball_y b - (pad_y p + pad_height p / 2)) / (pad_height p / 2)"

text \<open>Lines 224-227: the test of the player paddle block.\<close>

definition hitsPlayer :: "game \<Rightarrow> bool" where
  "hitsPlayer s =
     (let b = ball s; p = player s
      in ball_x b - ball_r b \<le> pad_x p + pad_width p \<and>
         ball_x b - ball_r b \<ge> pad_x p \<and>
         ball_y b + ball_r b \<ge> pad_y p \<and>
         ball_y b - ball_r b \<le> pad_y p + pad_height p)"

text \<open>Lines 228-236: the bounce off the player paddle.\<close>

definition bouncePlayer :: "game \<Rightarrow> game" where
  "bouncePlayer s =
     (let b = ball s; p = player s;
          bounceAngle = relativeY b p * MAX_BOUNCE_ANGLE;
          speed = hypot (ball_vx b) (ball_vy b) + 0.2
      in play PaddleSound
           (s\<lparr>ball := b\<lparr>ball_vx := \<bar>cos bounceAngle * speed\<bar>,
                          ball_vy := sin bounceAngle * speed,
                          ball_x := pad_x p + pad_width p + ball_r b + 0.5\<rparr>\<rparr>))"

definition collidePlayer :: "game \<Rightarrow> game" where
  "collidePlayer s = (if hitsPlayer s then bouncePlayer s else s)"

text \<open>Lines 240-243: the test of the CPU paddle block.\<close>

definition hitsCpu :: "game \<Rightarrow> bool" where
  "hitsCpu s =
     (let b = ball s; c = cpu s
      in ball_x b + ball_r b \<ge> pad_x c \<and>
         ball_x b + ball_r b \<le> pad_x c + pad_width c \<and>
         ball_y b + ball_r b \<ge> pad_y c \<and>
         ball_y b - ball_r b \<le> pad_y c + pad_height c)"

text \<open>Lines 244-250: the bounce off the CPU paddle.\<close>

definition bounceCpu :: "game \<Rightarrow> game" where
  "bounceCpu s =
     (let b = ball s; c = cpu s;
          bounceAngle = relativeY b c * MAX_BOUNCE_ANGLE;
          speed = hypot (ball_vx b) (ball_vy b) + 0.2
      in play PaddleSound
           (s\<lparr>ball := b\<lparr>ball_vx := - \<bar>cos bounceAngle * speed\<bar>,
                          ball_vy := sin bounceAngle * speed,
                          ball_x := pad_x c - ball_r b - 0.5\<rparr>\<rparr>))"

definition collideCpu :: "game \<Rightarrow> game" where
  "collideCpu s = (if hitsCpu s then bounceCpu s else s)"

text \<open>
  Lines 254-269: the score conditions. The timer that clears \<open>paused\<close> 700 ms later
  is not part of the step; only the assignment \<open>paused = true\<close> is.
\<close>

definition scoreCheck :: "(nat \<Rightarrow> real) \<Rightarrow> game \<Rightarrow> game" where
  "scoreCheck rnd s =
     (if ball_x (ball s) < - 50 then
        (let s1 = s\<lparr>score := (score s)\<lparr>score_cpu := score_cpu (score s) + 1\<rparr>\<rparr>;
             s2 = play ScoreSound s1;
             s3 = resetBall (Some Right) rnd s2
         in s3\<lparr>paused := True\<rparr>)
      else if ball_x (ball s) > WIDTH s + 50 then
        (let s1 = s\<lparr>score := (score s)\<lparr>score_player := score_player (score s) + 1\<rparr>\<rparr>;
             s2 = play ScoreSound s1;
             s3 = resetBall (Some Left) rnd s2
         in s3\<lparr>paused := True\<rparr>)
      else s)"

text \<open>The game as it stands when the score conditions are reached (lines 183-251).\<close>

definition preScore :: "real \<Rightarrow> game \<Rightarrow> game" where
  "preScore dt s =
     collideCpu (collidePlayer (collideWalls (moveBall dt (moveCpu dt (movePlayer dt s)))))"

definition update :: "real \<Rightarrow> (nat \<Rightarrow> real) \<Rightarrow> game \<Rightarrow> game" where
  "update dt rnd s = scoreCheck rnd (preScore dt s)"

section \<open>Input handlers\<close>

text \<open>
  The \<open>mousemove\<close> handler; its argument is \<open>e.clientY - rect.top\<close>, the pointer's
  vertical position on the canvas.
\<close>

definition mousemove :: "real \<Rightarrow> game \<Rightarrow> game" where
  "mousemove y s =
     (let p = player s
      in unlockAudio
           (s\<lparr>player := p\<lparr>pad_y := clamp (y - pad_height p / 2) 0 (HEIGHT s - pad_height p)\<rparr>,
              mouseActive := True\<rparr>))"

definition keydown :: "key_code \<Rightarrow> game \<Rightarrow> game" where
  "keydown code s =
     unlockAudio
       (case code of
          KeyArrowUp \<Rightarrow> s\<lparr>keyState := (keyState s)\<lparr>ArrowUp := True\<rparr>\<rparr>
        | KeyArrowDown \<Rightarrow> s\<lparr>keyState := (keyState s)\<lparr>ArrowDown := True\<rparr>\<rparr>
        | KeyOther \<Rightarrow> s)"

definition keyup :: "key_code \<Rightarrow> game \<Rightarrow> game" where
  "keyup code s =
     (case code of
        KeyArrowUp \<Rightarrow> s\<lparr>keyState := (keyState s)\<lparr>ArrowUp := False\<rparr>\<rparr>
      | KeyArrowDown \<Rightarrow> s\<lparr>keyState := (keyState s)\<lparr>ArrowDown := False\<rparr>\<rparr>
      | KeyOther \<Rightarrow> s)"

section \<open>Successive calls\<close>




section \<open>Test states\<close>

text \<open>
  Concrete games on an 800 by 400 canvas, used to run the definitions. \<open>rnd0\<close> is
  the random source that always returns 0.
\<close>

definition rnd0 :: "nat \<Rightarrow> real" where
  "rnd0 n = 0"

definition withBall :: "real \<Rightarrow> real \<Rightarrow> real \<Rightarrow> real \<Rightarrow> game" where
  "withBall x y vx vy =
     (initial 800 400)\<lparr>ball := \<lparr> ball_x = x, ball_y = y, ball_r = 8, ball_speed = 6,
                                  ball_vx = vx, ball_vy = vy \<rparr>\<rparr>"

section \<open>Measures used by the properties\<close>

text \<open>The magnitude of the ball's velocity.\<close>

definition ballSpeed :: "game \<Rightarrow> real" where
  "ballSpeed s = hypot (ball_vx (ball s)) (ball_vy (ball s))"

text \<open>A paddle is on the field when its top edge is within \<open>[0, HEIGHT - height]\<close>.\<close>

definition playerInBounds :: "game \<Rightarrow> bool" where
  "playerInBounds s =
     (0 \<le> pad_y (player s) \<and> pad_y (player s) \<le> HEIGHT s - pad_height (player s))"

definition cpuInBounds :: "game \<Rightarrow> bool" where
  "cpuInBounds s =
     (0 \<le> pad_y (cpu s) \<and> pad_y (cpu s) \<le> HEIGHT s - pad_height (cpu s))"

text \<open>
  The two-argument arctangent, as \<open>Math.atan2\<close> computes it on real numbers: the angle
  of the vector \<open>(x, y)\<close>, in \<open>(- pi, pi]\<close>. The script does not call it; the
  properties about angles measure the direction of the ball's velocity with it.
\<close>

definition atan2 :: "real \<Rightarrow> real \<Rightarrow> real" where
  "atan2 y x =
     (if 0 < x then arctan (y / x)
      else if x < 0 then (if 0 \<le> y then arctan (y / x) + pi else arctan (y / x) - pi)
      else if 0 < y then pi / 2
      else if y < 0 then - (pi / 2)
      else 0)"

text \<open>The angle of the ball's velocity from the horizontal, \<open>atan2(vy, |vx|)\<close>.\<close>

definition ballAngle :: "game \<Rightarrow> real" where
  "ballAngle s = atan2 (ball_vy (ball s)) \<bar>ball_vx (ball s)\<bar>"

text \<open>The velocity that lines 184-186 assign to \<open>player.dy\<close>.\<close>

definition keyDy :: "game \<Rightarrow> real" where
  "keyDy s = (if ArrowUp (keyState s) then - pad_speed (player s)
              else if ArrowDown (keyState s) then pad_speed (player s)
              else 0)"

section \<open>What each block leaves alone\<close>

lemma play_ball [simp]: "ball (play c s) = ball s"
  by (simp add: play_def)

lemma play_player [simp]: "player (play c s) = player s"
  by (simp add: play_def)

lemma play_cpu [simp]: "cpu (play c s) = cpu s"
  by (simp add: play_def)

lemma play_score [simp]: "score (play c s) = score s"
  by (simp add: play_def)

lemma play_WIDTH [simp]: "WIDTH (play c s) = WIDTH s"
  by (simp add: play_def)

lemma play_HEIGHT [simp]: "HEIGHT (play c s) = HEIGHT s"
  by (simp add: play_def)

lemma speed_sq: "(cos (a::real) * (v::real))\<^sup>2 + (sin a * v)\<^sup>2 = v\<^sup>2"
proof -
  have "(cos a * v)\<^sup>2 + (sin a * v)\<^sup>2 = ((cos a)\<^sup>2 + (sin a)\<^sup>2) * v\<^sup>2"
    by (simp only: power_mult_distrib distrib_right)
  then show ?thesis by simp
qed

lemma hypot_nonneg: "0 \<le> hypot a b"
  by (simp add: hypot_def)






section \<open>Concrete paddle hits\<close>

lemma hitsPlayer_example: "hitsPlayer (withBall 30 200 (- 6) 0)"
  by (simp add: hitsPlayer_def withBall_def initial_def PADDING_def PADDLE_WIDTH_def
      PADDLE_HEIGHT_def)


lemma resetBall_frame [simp]:
  "player (resetBall d rnd s) = player s"
  "cpu (resetBall d rnd s) = cpu s"
  "score (resetBall d rnd s) = score s"
  "WIDTH (resetBall d rnd s) = WIDTH s"
  "HEIGHT (resetBall d rnd s) = HEIGHT s"
  by (simp_all add: resetBall_def Let_def)

lemma movePlayer_frame [simp]:
  "cpu (movePlayer dt s) = cpu s"
  "ball (movePlayer dt s) = ball s"
  "score (movePlayer dt s) = score s"
  "WIDTH (movePlayer dt s) = WIDTH s"
  "HEIGHT (movePlayer dt s) = HEIGHT s"
  by (simp_all add: movePlayer_def Let_def)

lemma moveCpu_frame [simp]:
  "player (moveCpu dt s) = player s"
  "ball (moveCpu dt s) = ball s"
  "score (moveCpu dt s) = score s"
  "WIDTH (moveCpu dt s) = WIDTH s"
  "HEIGHT (moveCpu dt s) = HEIGHT s"
  by (simp_all add: moveCpu_def Let_def)

lemma moveBall_frame [simp]:
  "player (moveBall dt s) = player s"
  "cpu (moveBall dt s) = cpu s"
  "score (moveBall dt s) = score s"
  "WIDTH (moveBall dt s) = WIDTH s"
  "HEIGHT (moveBall dt s) = HEIGHT s"
  by (simp_all add: moveBall_def Let_def)

lemma collideWalls_frame [simp]:
  "player (collideWalls s) = player s"
  "cpu (collideWalls s) = cpu s"
  "score (collideWalls s) = score s"
  "WIDTH (collideWalls s) = WIDTH s"
  "HEIGHT (collideWalls s) = HEIGHT s"
  by (simp_all add: collideWalls_def Let_def)

lemma collidePlayer_frame [simp]:
  "player (collidePlayer s) = player s"
  "cpu (collidePlayer s) = cpu s"
  "score (collidePlayer s) = score s"
  "WIDTH (collidePlayer s) = WIDTH s"
  "HEIGHT (collidePlayer s) = HEIGHT s"
  by (simp_all add: collidePlayer_def bouncePlayer_def Let_def)

lemma collideCpu_frame [simp]:
  "player (collideCpu s) = player s"
  "cpu (collideCpu s) = cpu s"
  "score (collideCpu s) = score s"
  "WIDTH (collideCpu s) = WIDTH s"
  "HEIGHT (collideCpu s) = HEIGHT s"
  by (simp_all add: collideCpu_def bounceCpu_def Let_def)

lemma scoreCheck_frame [simp]:
  "player (scoreCheck rnd s) = player s"
  "cpu (scoreCheck rnd s) = cpu s"
  "WIDTH (scoreCheck rnd s) = WIDTH s"
  "HEIGHT (scoreCheck rnd s) = HEIGHT s"
  by (simp_all add: scoreCheck_def Let_def)

lemma preScore_frame [simp]:
  "score (preScore dt s) = score s"
  "WIDTH (preScore dt s) = WIDTH s"
  "HEIGHT (preScore dt s) = HEIGHT s"
  by (simp_all add: preScore_def)

lemma update_player: "player (update dt rnd s) = player (movePlayer dt s)"
  by (simp add: update_def preScore_def)

lemma update_cpu: "cpu (update dt rnd s) = cpu (moveCpu dt s)"
  by (simp add: update_def preScore_def moveCpu_def Let_def)

lemma update_HEIGHT [simp]: "HEIGHT (update dt rnd s) = HEIGHT s"
  by (simp add: update_def)

lemma update_WIDTH [simp]: "WIDTH (update dt rnd s) = WIDTH s"
  by (simp add: update_def)

lemma clamp_bounds: "a \<le> b \<Longrightarrow> a \<le> clamp v a b \<and> clamp v a b \<le> b"
  by (simp add: clamp_def)

lemma clamp_id: "a \<le> v \<Longrightarrow> v \<le> b \<Longrightarrow> clamp v a b = v"
  by (simp add: clamp_def)

section \<open>Paddles stay on the field\<close>

lemma movePlayer_inBounds:
  "pad_height (player s) \<le> HEIGHT s \<Longrightarrow> playerInBounds (movePlayer dt s)"
  using clamp_bounds [of 0 "HEIGHT s - pad_height (player s)"]
  by (simp add: playerInBounds_def movePlayer_def Let_def)

lemma moveCpu_inBounds:
  "pad_height (cpu s) \<le> HEIGHT s \<Longrightarrow> cpuInBounds (moveCpu dt s)"
  using clamp_bounds [of 0 "HEIGHT s - pad_height (cpu s)"]
  by (simp add: cpuInBounds_def moveCpu_def Let_def)

lemma mousemove_frame [simp]:
  "cpu (mousemove y s) = cpu s"
  "HEIGHT (mousemove y s) = HEIGHT s"
  by (simp_all add: mousemove_def unlockAudio_def Let_def)

lemma mousemove_inBounds:
  "pad_height (player s) \<le> HEIGHT s \<Longrightarrow> playerInBounds (mousemove y s)"
  using clamp_bounds [of 0 "HEIGHT s - pad_height (player s)"]
  by (simp add: playerInBounds_def mousemove_def unlockAudio_def Let_def)

text \<open>
  C7. After every simulation tick and after every pointer event both paddles lie within
  \<open>[0, HEIGHT - height]\<close>. The tick clamps both paddles whatever their position
  before; the pointer handler clamps the player paddle and does not touch the CPU paddle.
  The interval is empty when the canvas is lower than a paddle, so the field is taken
  to be at least as high as each paddle.
\<close>

theorem paddles_in_bounds:
  assumes "pad_height (player s) \<le> HEIGHT s" and "pad_height (cpu s) \<le> HEIGHT s"
  shows "playerInBounds (update dt rnd s) \<and> cpuInBounds (update dt rnd s) \<and>
         playerInBounds (mousemove y s) \<and>
         (cpuInBounds s \<longrightarrow> cpuInBounds (mousemove y s))"
proof -
  have "playerInBounds (update dt rnd s)"
    using movePlayer_inBounds [OF assms(1), of dt]
    by (simp add: playerInBounds_def update_player)
  moreover have "cpuInBounds (update dt rnd s)"
    using moveCpu_inBounds [OF assms(2), of dt]
    by (simp add: cpuInBounds_def update_cpu)
  moreover have "playerInBounds (mousemove y s)"
    using assms(1) by (rule mousemove_inBounds)
  moreover have "cpuInBounds s \<longrightarrow> cpuInBounds (mousemove y s)"
    by (simp add: cpuInBounds_def)
  ultimately show ?thesis by blast
qed


section \<open>Scoring\<close>

lemma scoreCheck_left:
  "ball_x (ball s) < - 50 \<Longrightarrow>
   score_cpu (score (scoreCheck rnd s)) = score_cpu (score s) + 1 \<and>
   score_player (score (scoreCheck rnd s)) = score_player (score s) \<and>
   ball_x (ball (scoreCheck rnd s)) = WIDTH s / 2 \<and>
   ball_y (ball (scoreCheck rnd s)) = HEIGHT s / 2"
  by (simp add: scoreCheck_def resetBall_def Let_def)

lemma scoreCheck_right:
  "\<not> ball_x (ball s) < - 50 \<Longrightarrow> ball_x (ball s) > WIDTH s + 50 \<Longrightarrow>
   score_player (score (scoreCheck rnd s)) = score_player (score s) + 1 \<and>
   score_cpu (score (scoreCheck rnd s)) = score_cpu (score s) \<and>
   ball_x (ball (scoreCheck rnd s)) = WIDTH s / 2 \<and>
   ball_y (ball (scoreCheck rnd s)) = HEIGHT s / 2"
  by (simp add: scoreCheck_def resetBall_def Let_def)

lemma scoreCheck_at_most_one:
  "score_cpu (score s) \<le> score_cpu (score (scoreCheck rnd s)) \<and>
   score_player (score s) \<le> score_player (score (scoreCheck rnd s)) \<and>
   score_cpu (score (scoreCheck rnd s)) + score_player (score (scoreCheck rnd s))
     \<le> score_cpu (score s) + score_player (score s) + 1"
  by (simp add: scoreCheck_def resetBall_def Let_def)

text \<open>
  C8. If the ball's x-coordinate, when the tick reaches the score conditions, is below
  \<open>- 50\<close>, the CPU score grows by exactly 1, the player score is unchanged and the
  ball is back at the centre of the field; symmetrically beyond \<open>WIDTH + 50\<close> for the
  player score. In every tick neither score decreases and their sum grows by at most 1.
  A canvas width is never negative, which is what makes the two conditions exclusive.
\<close>

theorem score_and_reset:
  assumes "0 \<le> WIDTH s"
  shows "(ball_x (ball (preScore dt s)) < - 50 \<longrightarrow>
            score_cpu (score (update dt rnd s)) = score_cpu (score s) + 1 \<and>
            score_player (score (update dt rnd s)) = score_player (score s) \<and>
            ball_x (ball (update dt rnd s)) = WIDTH s / 2 \<and>
            ball_y (ball (update dt rnd s)) = HEIGHT s / 2) \<and>
         (ball_x (ball (preScore dt s)) > WIDTH s + 50 \<longrightarrow>
            score_player (score (update dt rnd s)) = score_player (score s) + 1 \<and>
            score_cpu (score (update dt rnd s)) = score_cpu (score s) \<and>
            ball_x (ball (update dt rnd s)) = WIDTH s / 2 \<and>
            ball_y (ball (update dt rnd s)) = HEIGHT s / 2) \<and>
         score_cpu (score s) \<le> score_cpu (score (update dt rnd s)) \<and>
         score_player (score s) \<le> score_player (score (update dt rnd s)) \<and>
         score_cpu (score (update dt rnd s)) + score_player (score (update dt rnd s))
           \<le> score_cpu (score s) + score_player (score s) + 1"
proof (intro conjI impI)
  assume l: "ball_x (ball (preScore dt s)) < - 50"
  from scoreCheck_left [OF l, of rnd]
  show "score_cpu (score (update dt rnd s)) = score_cpu (score s) + 1"
    and "score_player (score (update dt rnd s)) = score_player (score s)"
    and "ball_x (ball (update dt rnd s)) = WIDTH s / 2"
    and "ball_y (ball (update dt rnd s)) = HEIGHT s / 2"
    by (simp_all add: update_def)
next
  assume r: "ball_x (ball (preScore dt s)) > WIDTH s + 50"
  with assms have n: "\<not> ball_x (ball (preScore dt s)) < - 50" by simp
  from r have r': "ball_x (ball (preScore dt s)) > WIDTH (preScore dt s) + 50" by simp
  from scoreCheck_right [OF n r', of rnd]
  show "score_player (score (update dt rnd s)) = score_player (score s) + 1"
    and "score_cpu (score (update dt rnd s)) = score_cpu (score s)"
    and "ball_x (ball (update dt rnd s)) = WIDTH s / 2"
    and "ball_y (ball (update dt rnd s)) = HEIGHT s / 2"
    by (simp_all add: update_def)
next
  from scoreCheck_at_most_one [of "preScore dt s" rnd]
  show "score_cpu (score s) \<le> score_cpu (score (update dt rnd s))"
    and "score_player (score s) \<le> score_player (score (update dt rnd s))"
    and "score_cpu (score (update dt rnd s)) + score_player (score (update dt rnd s))
           \<le> score_cpu (score s) + score_player (score s) + 1"
    by (simp_all add: update_def)
qed

text \<open>The definitions to unfold when a tick is run on a concrete game.\<close>

lemmas eval_defs = update_def preScore_def scoreCheck_def collideCpu_def collidePlayer_def
  hitsCpu_def hitsPlayer_def bounceCpu_def bouncePlayer_def collideWalls_def moveBall_def
  moveCpu_def movePlayer_def resetBall_def play_def clamp_def withBall_def initial_def
  PADDING_def PADDLE_WIDTH_def PADDLE_HEIGHT_def Let_def

lemma exit_left_example: "ball_x (ball (preScore 1 (withBall (- 40) 200 (- 6) 0))) < - 50"
  by (simp add: eval_defs)

lemma exit_right_example: "ball_x (ball (preScore 1 (withBall 840 200 6 0))) > WIDTH (withBall 840 200 6 0) + 50"
  by (simp add: eval_defs)

theorem score_and_reset_witness:
  "0 \<le> WIDTH (withBall (- 40) 200 (- 6) 0) \<and>
   ball_x (ball (preScore 1 (withBall (- 40) 200 (- 6) 0))) < - 50 \<and>
   score_cpu (score (update 1 rnd0 (withBall (- 40) 200 (- 6) 0))) = 1 \<and>
   score_player (score (update 1 rnd0 (withBall (- 40) 200 (- 6) 0))) = 0 \<and>
   ball_x (ball (update 1 rnd0 (withBall (- 40) 200 (- 6) 0))) = 400 \<and>
   ball_y (ball (update 1 rnd0 (withBall (- 40) 200 (- 6) 0))) = 200 \<and>
   0 \<le> WIDTH (withBall 840 200 6 0) \<and>
   ball_x (ball (preScore 1 (withBall 840 200 6 0))) > WIDTH (withBall 840 200 6 0) + 50 \<and>
   score_player (score (update 1 rnd0 (withBall 840 200 6 0))) = 1 \<and>
   score_cpu (score (update 1 rnd0 (withBall 840 200 6 0))) = 0 \<and>
   ball_x (ball (update 1 rnd0 (withBall 840 200 6 0))) = 400 \<and>
   ball_y (ball (update 1 rnd0 (withBall 840 200 6 0))) = 200"
proof -
  have w: "WIDTH (withBall x y vx vy) = 800" "HEIGHT (withBall x y vx vy) = 400"
    "score (withBall x y vx vy) = \<lparr> score_player = 0, score_cpu = 0 \<rparr>" for x y vx vy
    by (simp_all add: withBall_def initial_def)
  show ?thesis
    using score_and_reset [of "withBall (- 40) 200 (- 6) 0" 1 rnd0]
      score_and_reset [of "withBall 840 200 6 0" 1 rnd0]
      exit_left_example exit_right_example
    by (simp add: w)
qed

theorem paddles_in_bounds_witness:
  "pad_height (player (initial 800 400)) \<le> HEIGHT (initial 800 400) \<and>
   pad_height (cpu (initial 800 400)) \<le> HEIGHT (initial 800 400) \<and>
   cpuInBounds (initial 800 400) \<and>
   playerInBounds (update 1 rnd0 (initial 800 400)) \<and>
   cpuInBounds (update 1 rnd0 (initial 800 400)) \<and>
   playerInBounds (mousemove 1000 (initial 800 400)) \<and>
   cpuInBounds (mousemove 1000 (initial 800 400))"
proof -
  have h: "pad_height (player (initial 800 400)) \<le> HEIGHT (initial 800 400)"
    "pad_height (cpu (initial 800 400)) \<le> HEIGHT (initial 800 400)"
    by (simp_all add: initial_def PADDLE_HEIGHT_def)
  have c: "cpuInBounds (initial 800 400)"
    by (simp add: cpuInBounds_def initial_def PADDLE_HEIGHT_def)
  show ?thesis
    using paddles_in_bounds [OF h, of 1 rnd0 1000] h c by simp
qed

section \<open>The serve\<close>

lemma serve_angle_range:
  assumes "0 \<le> (u::real)" and "u < 1"
  shows "- (pi / 6) \<le> u * (pi / 3) - pi / 6" and "u * (pi / 3) - pi / 6 < pi / 6"
proof -
  have p: "0 < pi / 3" by simp
  have "0 \<le> u * (pi / 3)" using assms(1) p by simp
  then show "- (pi / 6) \<le> u * (pi / 3) - pi / 6" by simp
  have "u * (pi / 3) < 1 * (pi / 3)"
    using assms(2) p by (rule mult_strict_right_mono)
  then show "u * (pi / 3) - pi / 6 < pi / 6" by simp
qed

lemma serve_cos_pos:
  assumes "0 \<le> (u::real)" and "u < 1"
  shows "0 < cos (u * (pi / 3) - pi / 6)"
proof (rule cos_gt_zero_pi)
  have "0 < pi" by simp
  with serve_angle_range [OF assms]
  show "- (pi / 2) < u * (pi / 3) - pi / 6" and "u * (pi / 3) - pi / 6 < pi / 2"
    by linarith+
qed

lemma atan2_polar:
  assumes "0 < v" and "- (pi / 2) < a" and "a < pi / 2"
  shows "atan2 (v * sin a) (v * cos a) = a"
proof -
  have c: "0 < cos a" using assms(2,3) by (rule cos_gt_zero_pi)
  with assms(1) have "0 < v * cos a" by simp
  then have "atan2 (v * sin a) (v * cos a) = arctan ((v * sin a) / (v * cos a))"
    by (simp add: atan2_def)
  also have "(v * sin a) / (v * cos a) = tan a"
    using assms(1) by (simp add: tan_def)
  also have "arctan (tan a) = a"
    using assms(2,3) by (rule arctan_tan)
  finally show ?thesis .
qed

lemma resetBall_ball:
  "ball_vx (ball (resetBall (Some Left) rnd s)) = - (6 * cos (rnd 0 * (pi / 3) - pi / 6))"
  "ball_vx (ball (resetBall (Some Right) rnd s)) = 6 * cos (rnd 0 * (pi / 3) - pi / 6)"
  "ball_vx (ball (resetBall None rnd s)) =
     (if rnd 1 < 0.5 then - (6 * cos (rnd 0 * (pi / 3) - pi / 6))
      else 6 * cos (rnd 0 * (pi / 3) - pi / 6))"
  "ball_vy (ball (resetBall d rnd s)) = 6 * sin (rnd 0 * (pi / 3) - pi / 6)"
  "ball_x (ball (resetBall d rnd s)) = WIDTH s / 2"
  "ball_y (ball (resetBall d rnd s)) = HEIGHT s / 2"
  by (simp_all add: resetBall_def Let_def)

lemma resetBall_abs_vx:
  assumes "0 \<le> rnd 0" and "rnd 0 < 1"
  shows "\<bar>ball_vx (ball (resetBall d rnd s))\<bar> = 6 * cos (rnd 0 * (pi / 3) - pi / 6)"
proof -
  have c: "0 < cos (rnd 0 * (pi / 3) - pi / 6)"
    using assms by (rule serve_cos_pos)
  show ?thesis
  proof (cases d)
    case None
    then show ?thesis using c by (simp add: resetBall_ball)
  next
    case (Some e)
    then show ?thesis using c by (cases e) (simp_all add: resetBall_ball)
  qed
qed

text \<open>
  C9. Every serve, for any value of the random source in \<open>[0, 1)\<close> and any direction
  argument, gives the ball a velocity of magnitude 6 whose angle from the horizontal is
  within 30 degrees (\<open>pi / 6\<close>); a serve to the left has \<open>vx < 0\<close> and a serve to the
  right has \<open>vx > 0\<close>.
\<close>

theorem serve_velocity:
  assumes "0 \<le> rnd 0" and "rnd 0 < 1"
  shows "ballSpeed (resetBall d rnd s) = 6 \<and>
         \<bar>ballAngle (resetBall d rnd s)\<bar> \<le> pi / 6 \<and>
         ball_vx (ball (resetBall (Some Left) rnd s)) < 0 \<and>
         0 < ball_vx (ball (resetBall (Some Right) rnd s))"
proof -
  let ?a = "rnd 0 * (pi / 3) - pi / 6"
  have c: "0 < cos ?a" using assms by (rule serve_cos_pos)
  have r: "- (pi / 6) \<le> ?a" "?a < pi / 6" using assms by (rule serve_angle_range)+
  have v: "\<bar>ball_vx (ball (resetBall d rnd s))\<bar> = 6 * cos ?a"
    using assms by (rule resetBall_abs_vx)
  have "(ball_vx (ball (resetBall d rnd s)))\<^sup>2 = \<bar>ball_vx (ball (resetBall d rnd s))\<bar>\<^sup>2"
    by simp
  also have "\<dots> = (cos ?a * 6)\<^sup>2" by (simp only: v mult.commute)
  finally have "(ball_vx (ball (resetBall d rnd s)))\<^sup>2 + (ball_vy (ball (resetBall d rnd s)))\<^sup>2
     = (cos ?a * 6)\<^sup>2 + (sin ?a * 6)\<^sup>2"
    by (simp add: resetBall_ball mult.commute)
  also have "\<dots> = 6\<^sup>2" by (rule speed_sq)
  finally have s: "ballSpeed (resetBall d rnd s) = 6"
    by (simp add: ballSpeed_def hypot_def)
  have p: "0 < pi" by simp
  have "ballAngle (resetBall d rnd s) = atan2 (6 * sin ?a) (6 * cos ?a)"
    by (simp only: ballAngle_def v resetBall_ball)
  also have "\<dots> = ?a"
    using r p by (intro atan2_polar) linarith+
  finally have a: "\<bar>ballAngle (resetBall d rnd s)\<bar> \<le> pi / 6"
    using r by linarith
  show ?thesis using s a c by (simp add: resetBall_ball)
qed

theorem serve_velocity_witness:
  "0 \<le> rnd0 0 \<and> rnd0 0 < 1 \<and>
   ballSpeed (resetBall None rnd0 (initial 800 400)) = 6 \<and>
   \<bar>ballAngle (resetBall None rnd0 (initial 800 400))\<bar> \<le> pi / 6 \<and>
   ball_vx (ball (resetBall (Some Left) rnd0 (initial 800 400))) < 0 \<and>
   0 < ball_vx (ball (resetBall (Some Right) rnd0 (initial 800 400)))"
proof -
  have h: "0 \<le> rnd0 0" "rnd0 0 < 1" by (simp_all add: rnd0_def)
  show ?thesis
    using serve_velocity [where rnd = rnd0 and d = None and s = "initial 800 400"] h by simp
qed

section \<open>The bounce angle\<close>

lemma MAX_BOUNCE_ANGLE_range:
  assumes "- 1 \<le> (r::real)" and "r \<le> 1"
  shows "- (5 * pi / 12) \<le> r * MAX_BOUNCE_ANGLE" and "r * MAX_BOUNCE_ANGLE \<le> 5 * pi / 12"
proof -
  have m: "0 \<le> 5 * pi / 12" by simp
  have "(- 1) * (5 * pi / 12) \<le> r * (5 * pi / 12)"
    using assms(1) m by (rule mult_right_mono)
  then show "- (5 * pi / 12) \<le> r * MAX_BOUNCE_ANGLE"
    by (simp add: MAX_BOUNCE_ANGLE_def)
  have "r * (5 * pi / 12) \<le> 1 * (5 * pi / 12)"
    using assms(2) m by (rule mult_right_mono)
  then show "r * MAX_BOUNCE_ANGLE \<le> 5 * pi / 12"
    by (simp add: MAX_BOUNCE_ANGLE_def)
qed

lemma bounce_angle:
  assumes "0 < v" and "- 1 \<le> r" and "r \<le> 1"
  shows "\<bar>atan2 (sin (r * MAX_BOUNCE_ANGLE) * v) \<bar>cos (r * MAX_BOUNCE_ANGLE) * v\<bar>\<bar> \<le> 5 * pi / 12"
proof -
  let ?a = "r * MAX_BOUNCE_ANGLE"
  have p: "0 < pi" by simp
  have r: "- (5 * pi / 12) \<le> ?a" "?a \<le> 5 * pi / 12"
    using assms(2,3) by (rule MAX_BOUNCE_ANGLE_range)+
  have lo: "- (pi / 2) < ?a" and hi: "?a < pi / 2"
    using r p by linarith+
  have c: "0 < cos ?a" using lo hi by (rule cos_gt_zero_pi)
  have "\<bar>cos ?a * v\<bar> = v * cos ?a"
    using c assms(1) by (simp add: abs_mult mult.commute)
  then have "atan2 (sin ?a * v) \<bar>cos ?a * v\<bar> = atan2 (v * sin ?a) (v * cos ?a)"
    by (simp only: mult.commute)
  also have "\<dots> = ?a" using assms(1) lo hi by (rule atan2_polar)
  finally show ?thesis using r by linarith
qed

lemma bounce_speed_pos: "0 < hypot a b + 0.2"
  using hypot_nonneg [of a b] by simp

text \<open>
  C6. On a bounce off either paddle with \<open>relativeY\<close> in \<open>[- 1, 1]\<close>, the angle of the
  outgoing velocity from the horizontal, \<open>atan2(vy, |vx|)\<close>, is at most 75 degrees
  (\<open>5 * pi / 12\<close>) in magnitude. The paddle has a positive height, so that the division
  in \<open>relativeY\<close> is the one JavaScript computes.
\<close>

theorem bounce_angle_bound:
  "(hitsPlayer s \<and> 0 < pad_height (player s) \<and>
      - 1 \<le> relativeY (ball s) (player s) \<and> relativeY (ball s) (player s) \<le> 1 \<longrightarrow>
      \<bar>ballAngle (collidePlayer s)\<bar> \<le> 5 * pi / 12) \<and>
   (hitsCpu s \<and> 0 < pad_height (cpu s) \<and>
      - 1 \<le> relativeY (ball s) (cpu s) \<and> relativeY (ball s) (cpu s) \<le> 1 \<longrightarrow>
      \<bar>ballAngle (collideCpu s)\<bar> \<le> 5 * pi / 12)"
proof (intro conjI impI)
  assume "hitsPlayer s \<and> 0 < pad_height (player s) \<and>
      - 1 \<le> relativeY (ball s) (player s) \<and> relativeY (ball s) (player s) \<le> 1"
  then have h: "hitsPlayer s" and r: "- 1 \<le> relativeY (ball s) (player s)"
    "relativeY (ball s) (player s) \<le> 1" by simp_all
  from bounce_angle [OF bounce_speed_pos r, of "ball_vx (ball s)" "ball_vy (ball s)"]
  show "\<bar>ballAngle (collidePlayer s)\<bar> \<le> 5 * pi / 12"
    using h by (simp add: ballAngle_def collidePlayer_def bouncePlayer_def Let_def)
next
  assume "hitsCpu s \<and> 0 < pad_height (cpu s) \<and>
      - 1 \<le> relativeY (ball s) (cpu s) \<and> relativeY (ball s) (cpu s) \<le> 1"
  then have h: "hitsCpu s" and r: "- 1 \<le> relativeY (ball s) (cpu s)"
    "relativeY (ball s) (cpu s) \<le> 1" by simp_all
  from bounce_angle [OF bounce_speed_pos r, of "ball_vx (ball s)" "ball_vy (ball s)"]
  show "\<bar>ballAngle (collideCpu s)\<bar> \<le> 5 * pi / 12"
    using h by (simp add: ballAngle_def collideCpu_def bounceCpu_def Let_def)
qed

lemma relativeY_player_example:
  "0 < pad_height (player (withBall 30 200 (- 6) 0))"
  "relativeY (ball (withBall 30 200 (- 6) 0)) (player (withBall 30 200 (- 6) 0)) = 0"
  by (simp_all add: relativeY_def withBall_def initial_def PADDLE_HEIGHT_def)

lemma relativeY_cpu_example:
  "0 < pad_height (cpu (withBall 770 240 6 0))"
  "relativeY (ball (withBall 770 240 6 0)) (cpu (withBall 770 240 6 0)) = 4 / 5"
  "hitsCpu (withBall 770 240 6 0)"
  by (simp_all add: relativeY_def hitsCpu_def withBall_def initial_def PADDLE_HEIGHT_def
      PADDLE_WIDTH_def PADDING_def)

theorem bounce_angle_bound_witness:
  "hitsPlayer (withBall 30 200 (- 6) 0) \<and>
   0 < pad_height (player (withBall 30 200 (- 6) 0)) \<and>
   - 1 \<le> relativeY (ball (withBall 30 200 (- 6) 0)) (player (withBall 30 200 (- 6) 0)) \<and>
   relativeY (ball (withBall 30 200 (- 6) 0)) (player (withBall 30 200 (- 6) 0)) \<le> 1 \<and>
   \<bar>ballAngle (collidePlayer (withBall 30 200 (- 6) 0))\<bar> \<le> 5 * pi / 12 \<and>
   hitsCpu (withBall 770 240 6 0) \<and>
   0 < pad_height (cpu (withBall 770 240 6 0)) \<and>
   - 1 \<le> relativeY (ball (withBall 770 240 6 0)) (cpu (withBall 770 240 6 0)) \<and>
   relativeY (ball (withBall 770 240 6 0)) (cpu (withBall 770 240 6 0)) \<le> 1 \<and>
   \<bar>ballAngle (collideCpu (withBall 770 240 6 0))\<bar> \<le> 5 * pi / 12"
  using bounce_angle_bound [of "withBall 30 200 (- 6) 0"]
    bounce_angle_bound [of "withBall 770 240 6 0"]
    hitsPlayer_example relativeY_player_example relativeY_cpu_example
  by simp

section \<open>The serve after a score\<close>

lemma scoreCheck_vx:
  "ball_x (ball s) < - 50 \<Longrightarrow>
     ball_vx (ball (scoreCheck rnd s)) = 6 * cos (rnd 0 * (pi / 3) - pi / 6)"
  "\<not> ball_x (ball s) < - 50 \<Longrightarrow> ball_x (ball s) > WIDTH s + 50 \<Longrightarrow>
     ball_vx (ball (scoreCheck rnd s)) = - (6 * cos (rnd 0 * (pi / 3) - pi / 6))"
  by (simp_all add: scoreCheck_def resetBall_def Let_def)

text \<open>
  C1, as stated, fails: the ball leaves on the left, the CPU scores, and the new serve
  does not have \<open>vx < 0\<close>.
\<close>

theorem serve_toward_victim_counterexample:
  "ball_x (ball (preScore 1 (withBall (- 40) 200 (- 6) 0))) < - 50 \<and>
   score_cpu (score (update 1 rnd0 (withBall (- 40) 200 (- 6) 0))) =
     score_cpu (score (withBall (- 40) 200 (- 6) 0)) + 1 \<and>
   \<not> ball_vx (ball (update 1 rnd0 (withBall (- 40) 200 (- 6) 0))) < 0"
proof -
  have h: "0 \<le> rnd0 0" "rnd0 0 < 1" by (simp_all add: rnd0_def)
  have "0 < cos (rnd0 0 * (pi / 3) - pi / 6)" using h by (rule serve_cos_pos)
  then have "\<not> ball_vx (ball (update 1 rnd0 (withBall (- 40) 200 (- 6) 0))) < 0"
    using scoreCheck_vx(1) [OF exit_left_example, of rnd0] by (simp add: update_def)
  moreover have "score_cpu (score (update 1 rnd0 (withBall (- 40) 200 (- 6) 0))) =
     score_cpu (score (withBall (- 40) 200 (- 6) 0)) + 1"
    using scoreCheck_left [OF exit_left_example, of rnd0] by (simp add: update_def)
  ultimately show ?thesis using exit_left_example by simp
qed

text \<open>
  C1, amended. When the score conditions fire, the ball is put back at the centre of the
  field and served toward the side that has just scored: after the CPU scores (the ball
  is beyond the left margin) the new \<open>vx\<close> is positive, after the player scores (the
  ball is beyond the right margin) it is negative, for any value of the random source
  in \<open>[0, 1)\<close>.
\<close>

theorem serve_toward_scorer:
  assumes "0 \<le> rnd 0" and "rnd 0 < 1" and "0 \<le> WIDTH s"
  shows "(ball_x (ball (preScore dt s)) < - 50 \<longrightarrow>
            ball_x (ball (update dt rnd s)) = WIDTH s / 2 \<and>
            ball_y (ball (update dt rnd s)) = HEIGHT s / 2 \<and>
            0 < ball_vx (ball (update dt rnd s))) \<and>
         (ball_x (ball (preScore dt s)) > WIDTH s + 50 \<longrightarrow>
            ball_x (ball (update dt rnd s)) = WIDTH s / 2 \<and>
            ball_y (ball (update dt rnd s)) = HEIGHT s / 2 \<and>
            ball_vx (ball (update dt rnd s)) < 0)"
proof (intro conjI impI)
  have c: "0 < cos (rnd 0 * (pi / 3) - pi / 6)" using assms(1,2) by (rule serve_cos_pos)
  {
    assume l: "ball_x (ball (preScore dt s)) < - 50"
    from scoreCheck_left [OF l, of rnd]
    show "ball_x (ball (update dt rnd s)) = WIDTH s / 2"
      and "ball_y (ball (update dt rnd s)) = HEIGHT s / 2"
      by (simp_all add: update_def)
    from scoreCheck_vx(1) [OF l, of rnd] c
    show "0 < ball_vx (ball (update dt rnd s))"
      by (simp add: update_def)
  }
  {
    assume r: "ball_x (ball (preScore dt s)) > WIDTH s + 50"
    with assms(3) have n: "\<not> ball_x (ball (preScore dt s)) < - 50" by simp
    from r have r': "ball_x (ball (preScore dt s)) > WIDTH (preScore dt s) + 50" by simp
    from scoreCheck_right [OF n r', of rnd]
    show "ball_x (ball (update dt rnd s)) = WIDTH s / 2"
      and "ball_y (ball (update dt rnd s)) = HEIGHT s / 2"
      by (simp_all add: update_def)
    from scoreCheck_vx(2) [OF n r', of rnd] c
    show "ball_vx (ball (update dt rnd s)) < 0"
      by (simp add: update_def)
  }
qed

theorem serve_toward_scorer_witness:
  "0 \<le> rnd0 0 \<and> rnd0 0 < 1 \<and>
   0 \<le> WIDTH (withBall (- 40) 200 (- 6) 0) \<and>
   ball_x (ball (preScore 1 (withBall (- 40) 200 (- 6) 0))) < - 50 \<and>
   0 < ball_vx (ball (update 1 rnd0 (withBall (- 40) 200 (- 6) 0))) \<and>
   0 \<le> WIDTH (withBall 840 200 6 0) \<and>
   ball_x (ball (preScore 1 (withBall 840 200 6 0))) > WIDTH (withBall 840 200 6 0) + 50 \<and>
   ball_vx (ball (update 1 rnd0 (withBall 840 200 6 0))) < 0"
proof -
  have h: "0 \<le> rnd0 0" "rnd0 0 < 1" by (simp_all add: rnd0_def)
  have w: "0 \<le> WIDTH (withBall x y vx vy)" for x y vx vy
    by (simp add: withBall_def initial_def)
  show ?thesis
    using serve_toward_scorer [where rnd = rnd0 and s = "withBall (- 40) 200 (- 6) 0" and dt = 1]
      serve_toward_scorer [where rnd = rnd0 and s = "withBall 840 200 6 0" and dt = 1]
      h w exit_left_example exit_right_example
    by simp
qed

section \<open>Pointer and keyboard in the same tick\<close>

lemmas input_defs = mousemove_def keydown_def keyup_def unlockAudio_def

text \<open>
  C2. The pointer handler puts the player paddle at the clamped pointer target, 250, and
  sets \<open>mouseActive\<close>; with the down arrow held, the tick that follows still integrates
  the keyboard velocity and leaves the paddle at 256. The step never reads
  \<open>mouseActive\<close>.
\<close>

theorem pointer_then_keyboard_tick:
  "pad_y (player (mousemove 300 (keydown KeyArrowDown (initial 800 400)))) = 250 \<and>
   clamp (300 - pad_height (player (initial 800 400)) / 2) 0
     (HEIGHT (initial 800 400) - pad_height (player (initial 800 400))) = 250 \<and>
   mouseActive (mousemove 300 (keydown KeyArrowDown (initial 800 400))) \<and>
   pad_y (player (update 1 rnd0 (mousemove 300 (keydown KeyArrowDown (initial 800 400))))) = 256"
  by (simp add: eval_defs input_defs)

section \<open>Negative elapsed time\<close>

text \<open>
  C3, as stated, fails: with the down arrow held and the ball moving right, a tick with
  \<open>dt = - 1\<close> moves the player paddle up, the CPU paddle down and the ball back, where
  a tick with \<open>dt = 0\<close> moves none of them.
\<close>

theorem negative_elapsed_counterexample:
  "pad_y (player (update (- 1) rnd0 (keydown KeyArrowDown (withBall 400 200 6 0)))) = 144 \<and>
   pad_y (player (update 0 rnd0 (keydown KeyArrowDown (withBall 400 200 6 0)))) = 150 \<and>
   pad_y (cpu (update (- 1) rnd0 (keydown KeyArrowDown (withBall 400 200 6 0)))) = 200 \<and>
   pad_y (cpu (update 0 rnd0 (keydown KeyArrowDown (withBall 400 200 6 0)))) = 150 \<and>
   ball_x (ball (update (- 1) rnd0 (keydown KeyArrowDown (withBall 400 200 6 0)))) = 340 \<and>
   ball_x (ball (update 0 rnd0 (keydown KeyArrowDown (withBall 400 200 6 0)))) = 400"
  by (simp add: eval_defs input_defs)

lemma clamp_negative_step:
  assumes "m \<le> 0"
  shows "clamp d (- m) m = - m"
  using assms by (simp add: clamp_def)

lemma integrated_ball:
  "ball (moveBall dt (moveCpu dt (movePlayer dt s))) =
     (ball s)\<lparr>ball_x := ball_x (ball s) + ball_vx (ball s) * dt * 10,
              ball_y := ball_y (ball s) + ball_vy (ball s) * dt * 10\<rparr>"
  by (simp add: moveBall_def Let_def)

text \<open>
  C3, amended. The step does not clamp the elapsed time. For \<open>dt < 0\<close> the player paddle
  ends at \<open>clamp (y + dy * dt)\<close>, the CPU paddle (of non-negative speed) ends at
  \<open>clamp (y - speed * dt * 10)\<close> whatever its target, and the ball as the wall test
  receives it, before the wall, paddle and score blocks change it, is
  \<open>(x + vx * dt * 10, y + vy * dt * 10)\<close>; both paddles still end on the field.
\<close>

theorem negative_elapsed_integrates:
  assumes "dt < 0" and "0 \<le> pad_speed (cpu s)"
    and "pad_height (player s) \<le> HEIGHT s" and "pad_height (cpu s) \<le> HEIGHT s"
  shows "pad_y (player (update dt rnd s)) =
           clamp (pad_y (player s) + keyDy s * dt) 0 (HEIGHT s - pad_height (player s)) \<and>
         pad_y (cpu (update dt rnd s)) =
           clamp (pad_y (cpu s) - pad_speed (cpu s) * dt * 10) 0 (HEIGHT s - pad_height (cpu s)) \<and>
         ball (moveBall dt (moveCpu dt (movePlayer dt s))) =
           (ball s)\<lparr>ball_x := ball_x (ball s) + ball_vx (ball s) * dt * 10,
                    ball_y := ball_y (ball s) + ball_vy (ball s) * dt * 10\<rparr> \<and>
         playerInBounds (update dt rnd s) \<and> cpuInBounds (update dt rnd s)"
proof -
  have p: "pad_y (player (update dt rnd s)) =
           clamp (pad_y (player s) + keyDy s * dt) 0 (HEIGHT s - pad_height (player s))"
    by (simp add: update_player movePlayer_def keyDy_def Let_def)
  have "pad_speed (cpu s) * dt * 10 \<le> 0"
    using assms(1,2) by (simp add: mult_le_0_iff)
  then have c: "pad_y (cpu (update dt rnd s)) =
           clamp (pad_y (cpu s) - pad_speed (cpu s) * dt * 10) 0 (HEIGHT s - pad_height (cpu s))"
    by (simp add: update_cpu moveCpu_def Let_def clamp_negative_step)
  have pb: "playerInBounds (update dt rnd s)"
    using movePlayer_inBounds [OF assms(3), of dt]
    by (simp add: playerInBounds_def update_player)
  have cb: "cpuInBounds (update dt rnd s)"
    using moveCpu_inBounds [OF assms(4), of dt]
    by (simp add: cpuInBounds_def update_cpu)
  show ?thesis using p c pb cb integrated_ball [of dt s] by simp
qed

theorem negative_elapsed_integrates_witness:
  "(- 1 :: real) < 0 \<and> 0 \<le> pad_speed (cpu (keydown KeyArrowDown (withBall 400 200 6 0))) \<and>
   pad_height (player (keydown KeyArrowDown (withBall 400 200 6 0)))
     \<le> HEIGHT (keydown KeyArrowDown (withBall 400 200 6 0)) \<and>
   pad_height (cpu (keydown KeyArrowDown (withBall 400 200 6 0)))
     \<le> HEIGHT (keydown KeyArrowDown (withBall 400 200 6 0)) \<and>
   pad_y (player (update (- 1) rnd0 (keydown KeyArrowDown (withBall 400 200 6 0)))) =
     clamp (pad_y (player (keydown KeyArrowDown (withBall 400 200 6 0)))
            + keyDy (keydown KeyArrowDown (withBall 400 200 6 0)) * (- 1)) 0
       (HEIGHT (keydown KeyArrowDown (withBall 400 200 6 0))
        - pad_height (player (keydown KeyArrowDown (withBall 400 200 6 0)))) \<and>
   playerInBounds (update (- 1) rnd0 (keydown KeyArrowDown (withBall 400 200 6 0))) \<and>
   cpuInBounds (update (- 1) rnd0 (keydown KeyArrowDown (withBall 400 200 6 0)))"
proof -
  let ?k = "keydown KeyArrowDown (withBall 400 200 6 0)"
  have h: "(- 1 :: real) < 0" "0 \<le> pad_speed (cpu ?k)"
    "pad_height (player ?k) \<le> HEIGHT ?k" "pad_height (cpu ?k) \<le> HEIGHT ?k"
    by (simp_all add: input_defs withBall_def initial_def PADDLE_HEIGHT_def)
  show ?thesis
    using negative_elapsed_integrates [OF h, of rnd0] h by simp
qed

section \<open>A tick of zero elapsed time\<close>

lemma clamp_zero_step: "clamp d 0 0 = 0"
  by (simp add: clamp_def)

lemma movePlayer_zero:
  assumes "pad_dy (player s) = keyDy s" and "playerInBounds s"
  shows "movePlayer 0 s = s"
  using assms by (simp add: movePlayer_def keyDy_def playerInBounds_def clamp_id Let_def)

lemma moveCpu_zero:
  assumes "cpuInBounds s"
  shows "moveCpu 0 s = s"
  using assms by (simp add: moveCpu_def cpuInBounds_def clamp_def Let_def)

lemma moveBall_zero: "moveBall 0 s = s"
  by (simp add: moveBall_def Let_def)

lemma collideWalls_inside:
  assumes "0 < ball_y (ball s) - ball_r (ball s)" and "ball_y (ball s) + ball_r (ball s) < HEIGHT s"
  shows "collideWalls s = s"
  using assms by (simp add: collideWalls_def Let_def)

lemma scoreCheck_inside:
  assumes "- 50 \<le> ball_x (ball s)" and "ball_x (ball s) \<le> WIDTH s + 50"
  shows "scoreCheck rnd s = s"
  using assms by (simp add: scoreCheck_def)

text \<open>
  C4, amended. A tick with \<open>dt = 0\<close> leaves the whole game unchanged when
  \<open>player.dy\<close> agrees with the keys, both paddles are on the field, the ball is
  strictly between the two walls, touches no paddle and is within the scoring margins.
\<close>

theorem zero_elapsed_identity:
  assumes "pad_dy (player s) = keyDy s"
    and "playerInBounds s" and "cpuInBounds s"
    and "0 < ball_y (ball s) - ball_r (ball s)"
    and "ball_y (ball s) + ball_r (ball s) < HEIGHT s"
    and "\<not> hitsPlayer s" and "\<not> hitsCpu s"
    and "- 50 \<le> ball_x (ball s)" and "ball_x (ball s) \<le> WIDTH s + 50"
  shows "update 0 rnd s = s"
proof -
  have "preScore 0 s = s"
    using assms(6,7)
    by (simp add: preScore_def movePlayer_zero [OF assms(1,2)] moveCpu_zero [OF assms(3)]
        moveBall_zero collideWalls_inside [OF assms(4,5)] collidePlayer_def collideCpu_def)
  then show ?thesis
    by (simp add: update_def scoreCheck_inside [OF assms(8,9)])
qed

lemma sqrt3_bounds: "0 < sqrt 3" "sqrt 3 < 2"
proof -
  show "0 < sqrt 3" by simp
  show "sqrt 3 < 2" by (rule real_less_lsqrt) simp_all
qed

lemma boot_ball:
  "ball (boot 800 400 rnd0) =
     \<lparr> ball_x = 400, ball_y = 200, ball_r = 8, ball_speed = 6,
       ball_vx = - (3 * sqrt 3), ball_vy = - 3 \<rparr>"
  by (simp add: boot_def resetBall_def initial_def rnd0_def Let_def cos_30 sin_30)

lemma boot_rest:
  "player (boot 800 400 rnd0) = player (initial 800 400)"
  "cpu (boot 800 400 rnd0) = cpu (initial 800 400)"
  "HEIGHT (boot 800 400 rnd0) = 400"
  "WIDTH (boot 800 400 rnd0) = 800"
  "keyState (boot 800 400 rnd0) = \<lparr> ArrowUp = False, ArrowDown = False \<rparr>"
  "score (boot 800 400 rnd0) = \<lparr> score_player = 0, score_cpu = 0 \<rparr>"
  by (simp_all add: boot_def resetBall_def initial_def Let_def)

lemma boot_integrated:
  "ball (moveBall 7 (moveCpu 7 (movePlayer 7 (boot 800 400 rnd0)))) =
     \<lparr> ball_x = 400 - 210 * sqrt 3, ball_y = - 10, ball_r = 8, ball_speed = 6,
       ball_vx = - (3 * sqrt 3), ball_vy = - 3 \<rparr>"
  by (simp add: integrated_ball boot_ball)

lemma boot_paddles:
  "player (movePlayer dt (boot 800 400 rnd0)) = player (initial 800 400)"
  "cpu (moveCpu 7 (boot 800 400 rnd0)) = cpu (initial 800 400)"
  by (simp_all add: movePlayer_def moveCpu_def clamp_def Let_def boot_ball boot_rest
      initial_def PADDLE_HEIGHT_def)


lemma moveCpu_after_movePlayer: "cpu (moveCpu dt (movePlayer dt s)) = cpu (moveCpu dt s)"
  by (simp add: moveCpu_def Let_def)

lemma first_bounce_walls:
  "ball (collideWalls (moveBall 7 (moveCpu 7 (movePlayer 7 (boot 800 400 rnd0))))) =
     \<lparr> ball_x = 400 - 210 * sqrt 3, ball_y = 8, ball_r = 8, ball_speed = 6,
       ball_vx = - (3 * sqrt 3), ball_vy = 3 \<rparr>"
  by (simp add: collideWalls_def Let_def boot_integrated)

lemma first_bounce_preScore:
  "preScore 7 (boot 800 400 rnd0) =
     collideWalls (moveBall 7 (moveCpu 7 (movePlayer 7 (boot 800 400 rnd0))))"
proof -
  let ?m = "collideWalls (moveBall 7 (moveCpu 7 (movePlayer 7 (boot 800 400 rnd0))))"
  have np: "\<not> hitsPlayer ?m"
    by (simp add: hitsPlayer_def Let_def first_bounce_walls boot_paddles initial_def
        PADDLE_HEIGHT_def)
  have nc: "\<not> hitsCpu ?m"
    by (simp add: hitsCpu_def Let_def first_bounce_walls moveCpu_after_movePlayer
        boot_paddles initial_def PADDLE_HEIGHT_def)
  show ?thesis
    using np nc by (simp add: preScore_def collidePlayer_def collideCpu_def)
qed

lemma first_bounce_update:
  "update 7 rnd0 (boot 800 400 rnd0) =
     collideWalls (moveBall 7 (moveCpu 7 (movePlayer 7 (boot 800 400 rnd0))))"
proof -
  let ?m = "collideWalls (moveBall 7 (moveCpu 7 (movePlayer 7 (boot 800 400 rnd0))))"
  have x: "ball_x (ball ?m) = 400 - 210 * sqrt 3" by (simp add: first_bounce_walls)
  have w: "WIDTH ?m = 800" by (simp add: boot_rest)
  have "- 50 \<le> ball_x (ball ?m)" "ball_x (ball ?m) \<le> WIDTH ?m + 50"
    unfolding x w using sqrt3_bounds by linarith+
  then have "scoreCheck rnd0 ?m = ?m" by (rule scoreCheck_inside)
  then show ?thesis by (simp add: update_def first_bounce_preScore)
qed

lemma first_bounce_rest:
  "player (update 7 rnd0 (boot 800 400 rnd0)) = player (initial 800 400)"
  "cpu (update 7 rnd0 (boot 800 400 rnd0)) = cpu (initial 800 400)"
  "HEIGHT (update 7 rnd0 (boot 800 400 rnd0)) = 400"
  "WIDTH (update 7 rnd0 (boot 800 400 rnd0)) = 800"
  by (simp_all add: update_player update_cpu boot_paddles boot_rest)

lemma second_tick_integrated:
  "ball (moveBall 0 (moveCpu 0 (movePlayer 0 (update 7 rnd0 (boot 800 400 rnd0))))) =
     \<lparr> ball_x = 400 - 210 * sqrt 3, ball_y = 8, ball_r = 8, ball_speed = 6,
       ball_vx = - (3 * sqrt 3), ball_vy = 3 \<rparr>"
  by (simp add: integrated_ball) (simp add: first_bounce_update first_bounce_walls)

lemma second_tick_walls:
  "ball (collideWalls (moveBall 0 (moveCpu 0 (movePlayer 0 (update 7 rnd0 (boot 800 400 rnd0)))))) =
     \<lparr> ball_x = 400 - 210 * sqrt 3, ball_y = 8, ball_r = 8, ball_speed = 6,
       ball_vx = - (3 * sqrt 3), ball_vy = - 3 \<rparr>"
  by (simp add: collideWalls_def Let_def second_tick_integrated)

lemma movePlayer_zero_y:
  "pad_y (player (movePlayer 0 s)) = clamp (pad_y (player s)) 0 (HEIGHT s - pad_height (player s))"
  by (simp add: movePlayer_def Let_def)

lemma moveCpu_zero_y:
  "pad_y (cpu (moveCpu 0 s)) = clamp (pad_y (cpu s)) 0 (HEIGHT s - pad_height (cpu s))"
  by (simp add: moveCpu_def Let_def clamp_zero_step)

lemma second_tick_paddles:
  "pad_y (player (movePlayer 0 (update 7 rnd0 (boot 800 400 rnd0)))) = 150"
  "pad_y (cpu (moveCpu 0 (update 7 rnd0 (boot 800 400 rnd0)))) = 150"
  by (simp_all add: movePlayer_zero_y moveCpu_zero_y first_bounce_rest boot_rest clamp_def
      initial_def PADDLE_HEIGHT_def)

lemma second_tick_update:
  "ball (update 0 rnd0 (update 7 rnd0 (boot 800 400 rnd0))) =
     \<lparr> ball_x = 400 - 210 * sqrt 3, ball_y = 8, ball_r = 8, ball_speed = 6,
       ball_vx = - (3 * sqrt 3), ball_vy = - 3 \<rparr>"
proof -
  let ?s = "update 7 rnd0 (boot 800 400 rnd0)"
  let ?m = "collideWalls (moveBall 0 (moveCpu 0 (movePlayer 0 ?s)))"
  have np: "\<not> hitsPlayer ?m"
    by (simp add: hitsPlayer_def Let_def second_tick_walls second_tick_paddles)
  have nc: "\<not> hitsCpu ?m"
    by (simp add: hitsCpu_def Let_def second_tick_walls moveCpu_after_movePlayer
        second_tick_paddles)
  have ps: "preScore 0 ?s = ?m"
    using np nc by (simp add: preScore_def collidePlayer_def collideCpu_def)
  have x: "ball_x (ball ?m) = 400 - 210 * sqrt 3" by (simp add: second_tick_walls)
  have w: "WIDTH ?m = 800" by (simp add: boot_rest)
  have "- 50 \<le> ball_x (ball ?m)" "ball_x (ball ?m) \<le> WIDTH ?m + 50"
    unfolding x w using sqrt3_bounds by linarith+
  then have sc: "scoreCheck rnd0 ?m = ?m" by (rule scoreCheck_inside)
  have "update 0 rnd0 ?s = scoreCheck rnd0 (preScore 0 ?s)" by (rule update_def)
  also have "\<dots> = ?m" by (simp only: ps sc)
  finally show ?thesis by (simp only: second_tick_walls)
qed

text \<open>
  C4, as stated, fails: from the first serve, a tick of 7 frames bounces the ball off
  the top wall and leaves it resting on it (\<open>y = r\<close>) with \<open>vy = 3\<close>; a tick with
  \<open>dt = 0\<close> then finds \<open>y - r \<le> 0\<close> again and turns \<open>vy\<close> into \<open>- 3\<close>.
\<close>

theorem zero_elapsed_wall_counterexample:
  "ball_y (ball (update 7 rnd0 (boot 800 400 rnd0))) = ball_r (ball (update 7 rnd0 (boot 800 400 rnd0))) \<and>
   ball_vy (ball (update 7 rnd0 (boot 800 400 rnd0))) = 3 \<and>
   ball_vy (ball (update 0 rnd0 (update 7 rnd0 (boot 800 400 rnd0)))) = - 3"
  by (simp add: second_tick_update) (simp add: first_bounce_update first_bounce_walls)

theorem zero_elapsed_identity_witness:
  "pad_dy (player (boot 800 400 rnd0)) = keyDy (boot 800 400 rnd0) \<and>
   playerInBounds (boot 800 400 rnd0) \<and> cpuInBounds (boot 800 400 rnd0) \<and>
   0 < ball_y (ball (boot 800 400 rnd0)) - ball_r (ball (boot 800 400 rnd0)) \<and>
   ball_y (ball (boot 800 400 rnd0)) + ball_r (ball (boot 800 400 rnd0)) < HEIGHT (boot 800 400 rnd0) \<and>
   \<not> hitsPlayer (boot 800 400 rnd0) \<and> \<not> hitsCpu (boot 800 400 rnd0) \<and>
   - 50 \<le> ball_x (ball (boot 800 400 rnd0)) \<and>
   ball_x (ball (boot 800 400 rnd0)) \<le> WIDTH (boot 800 400 rnd0) + 50 \<and>
   update 0 rnd0 (boot 800 400 rnd0) = boot 800 400 rnd0"
proof -
  let ?b = "boot 800 400 rnd0"
  have h: "pad_dy (player ?b) = keyDy ?b" "playerInBounds ?b" "cpuInBounds ?b"
    "0 < ball_y (ball ?b) - ball_r (ball ?b)" "ball_y (ball ?b) + ball_r (ball ?b) < HEIGHT ?b"
    "\<not> hitsPlayer ?b" "\<not> hitsCpu ?b"
    "- 50 \<le> ball_x (ball ?b)" "ball_x (ball ?b) \<le> WIDTH ?b + 50"
    by (simp_all add: keyDy_def playerInBounds_def cpuInBounds_def hitsPlayer_def hitsCpu_def
        boot_ball boot_rest initial_def PADDLE_HEIGHT_def PADDLE_WIDTH_def PADDING_def)
  show ?thesis
    using zero_elapsed_identity [OF h, of rnd0] h by simp
qed

section \<open>Tunnelling\<close>

lemma collideWalls_ball_x: "ball_x (ball (collideWalls s)) = ball_x (ball s)"
  "ball_r (ball (collideWalls s)) = ball_r (ball s)"
  by (simp_all add: collideWalls_def Let_def)

text \<open>
  C10. The paddle tests run after the ball has been moved, and only on the moved ball:
  if its leading edge is then outside the x-span of both paddles, the tick has no
  paddle bounce. So a fast ball tunnels: the ball at \<open>x = 40\<close> with \<open>vx = - 6\<close>, level
  with the middle of the player paddle and to its right, is carried by one tick of one
  frame to \<open>x = - 20\<close>, its leading edge left of the paddle, with its velocity and the
  scores unchanged; the next tick gives the point to the CPU.
\<close>

theorem paddle_tunnelling:
  "(\<not> (pad_x (player s) \<le> ball_x (ball s) + ball_vx (ball s) * dt * 10 - ball_r (ball s) \<and>
        ball_x (ball s) + ball_vx (ball s) * dt * 10 - ball_r (ball s)
          \<le> pad_x (player s) + pad_width (player s)) \<and>
    \<not> (pad_x (cpu s) \<le> ball_x (ball s) + ball_vx (ball s) * dt * 10 + ball_r (ball s) \<and>
        ball_x (ball s) + ball_vx (ball s) * dt * 10 + ball_r (ball s)
          \<le> pad_x (cpu s) + pad_width (cpu s)) \<longrightarrow>
    preScore dt s = collideWalls (moveBall dt (moveCpu dt (movePlayer dt s)))) \<and>
   pad_x (player (withBall 40 200 (- 6) 0)) + pad_width (player (withBall 40 200 (- 6) 0))
     < ball_x (ball (withBall 40 200 (- 6) 0)) - ball_r (ball (withBall 40 200 (- 6) 0)) \<and>
   pad_y (player (withBall 40 200 (- 6) 0)) \<le> ball_y (ball (withBall 40 200 (- 6) 0)) \<and>
   ball_y (ball (withBall 40 200 (- 6) 0))
     \<le> pad_y (player (withBall 40 200 (- 6) 0)) + pad_height (player (withBall 40 200 (- 6) 0)) \<and>
   ball (update 1 rnd (withBall 40 200 (- 6) 0)) =
     (ball (withBall 40 200 (- 6) 0))\<lparr>ball_x := - 20\<rparr> \<and>
   player (update 1 rnd (withBall 40 200 (- 6) 0)) = player (withBall 40 200 (- 6) 0) \<and>
   ball_x (ball (update 1 rnd (withBall 40 200 (- 6) 0)))
     - ball_r (ball (update 1 rnd (withBall 40 200 (- 6) 0)))
     < pad_x (player (update 1 rnd (withBall 40 200 (- 6) 0))) \<and>
   score (update 1 rnd (withBall 40 200 (- 6) 0)) = score (withBall 40 200 (- 6) 0) \<and>
   score_cpu (score (update 1 rnd (update 1 rnd (withBall 40 200 (- 6) 0)))) =
     score_cpu (score (withBall 40 200 (- 6) 0)) + 1"
proof -
  have g: "\<not> (pad_x (player s) \<le> ball_x (ball s) + ball_vx (ball s) * dt * 10 - ball_r (ball s) \<and>
        ball_x (ball s) + ball_vx (ball s) * dt * 10 - ball_r (ball s)
          \<le> pad_x (player s) + pad_width (player s)) \<and>
    \<not> (pad_x (cpu s) \<le> ball_x (ball s) + ball_vx (ball s) * dt * 10 + ball_r (ball s) \<and>
        ball_x (ball s) + ball_vx (ball s) * dt * 10 + ball_r (ball s)
          \<le> pad_x (cpu s) + pad_width (cpu s)) \<longrightarrow>
    preScore dt s = collideWalls (moveBall dt (moveCpu dt (movePlayer dt s)))"
  proof
    let ?m = "collideWalls (moveBall dt (moveCpu dt (movePlayer dt s)))"
    assume a: "\<not> (pad_x (player s) \<le> ball_x (ball s) + ball_vx (ball s) * dt * 10 - ball_r (ball s) \<and>
        ball_x (ball s) + ball_vx (ball s) * dt * 10 - ball_r (ball s)
          \<le> pad_x (player s) + pad_width (player s)) \<and>
    \<not> (pad_x (cpu s) \<le> ball_x (ball s) + ball_vx (ball s) * dt * 10 + ball_r (ball s) \<and>
        ball_x (ball s) + ball_vx (ball s) * dt * 10 + ball_r (ball s)
          \<le> pad_x (cpu s) + pad_width (cpu s))"
    have x: "ball_x (ball ?m) = ball_x (ball s) + ball_vx (ball s) * dt * 10"
      "ball_r (ball ?m) = ball_r (ball s)"
      by (simp_all add: collideWalls_ball_x integrated_ball)
    have px: "pad_x (player ?m) = pad_x (player s)" "pad_width (player ?m) = pad_width (player s)"
      by (simp_all add: movePlayer_def Let_def)
    have cx: "pad_x (cpu ?m) = pad_x (cpu s)" "pad_width (cpu ?m) = pad_width (cpu s)"
      by (simp_all add: moveCpu_def Let_def)
    have np: "\<not> hitsPlayer ?m"
      using a unfolding hitsPlayer_def Let_def x px by auto
    have nc: "\<not> hitsCpu ?m"
      using a unfolding hitsCpu_def Let_def x cx by auto
    show "preScore dt s = ?m"
      using np nc by (simp add: preScore_def collidePlayer_def collideCpu_def)
  qed
  have e: "update 1 rnd (withBall 40 200 (- 6) 0) = (withBall 40 200 (- 6) 0)\<lparr>ball := (ball (withBall 40 200 (- 6) 0))\<lparr>ball_x := - 20\<rparr>\<rparr>"
    by (simp add: eval_defs)
  have e2: "score_cpu (score (update 1 rnd (update 1 rnd (withBall 40 200 (- 6) 0)))) =
     score_cpu (score (withBall 40 200 (- 6) 0)) + 1"
    unfolding e by (simp add: eval_defs)
  have rest: "pad_x (player (withBall 40 200 (- 6) 0)) + pad_width (player (withBall 40 200 (- 6) 0))
     < ball_x (ball (withBall 40 200 (- 6) 0)) - ball_r (ball (withBall 40 200 (- 6) 0))"
   "pad_y (player (withBall 40 200 (- 6) 0)) \<le> ball_y (ball (withBall 40 200 (- 6) 0))"
   "ball_y (ball (withBall 40 200 (- 6) 0))
     \<le> pad_y (player (withBall 40 200 (- 6) 0)) + pad_height (player (withBall 40 200 (- 6) 0))"
   "ball_x (ball (update 1 rnd (withBall 40 200 (- 6) 0)))
     - ball_r (ball (update 1 rnd (withBall 40 200 (- 6) 0)))
     < pad_x (player (update 1 rnd (withBall 40 200 (- 6) 0)))"
    unfolding e by (simp_all add: withBall_def initial_def PADDING_def PADDLE_WIDTH_def PADDLE_HEIGHT_def)
  show ?thesis
    using g e2 rest by (simp add: e)
qed

theorem paddle_tunnelling_witness:
  "\<not> (pad_x (player (withBall 40 200 (- 6) 0))
        \<le> ball_x (ball (withBall 40 200 (- 6) 0))
            + ball_vx (ball (withBall 40 200 (- 6) 0)) * 1 * 10
            - ball_r (ball (withBall 40 200 (- 6) 0)) \<and>
      ball_x (ball (withBall 40 200 (- 6) 0))
        + ball_vx (ball (withBall 40 200 (- 6) 0)) * 1 * 10
        - ball_r (ball (withBall 40 200 (- 6) 0))
        \<le> pad_x (player (withBall 40 200 (- 6) 0))
            + pad_width (player (withBall 40 200 (- 6) 0))) \<and>
   \<not> (pad_x (cpu (withBall 40 200 (- 6) 0))
        \<le> ball_x (ball (withBall 40 200 (- 6) 0))
            + ball_vx (ball (withBall 40 200 (- 6) 0)) * 1 * 10
            + ball_r (ball (withBall 40 200 (- 6) 0)) \<and>
      ball_x (ball (withBall 40 200 (- 6) 0))
        + ball_vx (ball (withBall 40 200 (- 6) 0)) * 1 * 10
        + ball_r (ball (withBall 40 200 (- 6) 0))
        \<le> pad_x (cpu (withBall 40 200 (- 6) 0))
            + pad_width (cpu (withBall 40 200 (- 6) 0))) \<and>
   preScore 1 (withBall 40 200 (- 6) 0) =
     collideWalls (moveBall 1 (moveCpu 1 (movePlayer 1 (withBall 40 200 (- 6) 0))))"
proof -
  have v: "pad_x (player (withBall 40 200 (- 6) 0)) = 12"
    "pad_x (cpu (withBall 40 200 (- 6) 0)) = 778"
    "ball_x (ball (withBall 40 200 (- 6) 0)) = 40"
    "ball_vx (ball (withBall 40 200 (- 6) 0)) = - 6"
    "ball_r (ball (withBall 40 200 (- 6) 0)) = 8"
    by (simp_all add: withBall_def initial_def PADDING_def PADDLE_WIDTH_def)
  show ?thesis
    using paddle_tunnelling [where s = "withBall 40 200 (- 6) 0" and dt = 1 and rnd = rnd0]
    by (simp add: v)
qed

section \<open>Speed of the ball across bounces and ticks\<close>



















end
